theory Spec2Isabelle
  imports Complex_Main
begin

section \<open>Data model (types.ts and the state hooks of App.tsx)\<close>

text \<open>
  JavaScript numbers are modelled as mathematical reals (the score, which only ever holds
  \<open>0\<close> and increments of it, as an integer): rounding, infinities and NaN are not
  modelled. \<open>Math.cos\<close> and \<open>Math.sin\<close> are the real functions \<open>cos\<close> and \<open>sin\<close>.
  The draws of \<open>Math.random()\<close> are explicit arguments of the handlers, in the order in
  which the handler makes them.
\<close>

datatype PreyType = Laser | Mouse | Bird | Bug

datatype Theme = Garden | Night | Minimal

record GameState =
  score :: int
  preyType :: PreyType
  speed :: real
  theme :: Theme
  isMuted :: bool

record Prey =
  prey_id :: string
  prey_x :: real
  prey_y :: real
  prey_rotation :: real
  prey_scale :: real

record Velocity =
  dx :: real
  dy :: real

record Dimensions =
  width :: real
  height :: real

text \<open>
  The component's state: the four \<open>useState\<close> cells, the settings flag, and the mutable
  \<open>velocityRef\<close>. The animation-frame handle \<open>requestRef\<close> only schedules the next tick
  and is left out.
\<close>

record App =
  gameState :: GameState
  isPlaying :: bool
  dimensions :: Dimensions
  prey :: Prey
  showSettings :: bool
  velocityRef :: Velocity

text \<open>The initial values of the hooks, for a window of the given inner width and height.\<close>

definition initial :: "real \<Rightarrow> real \<Rightarrow> App" where
  "initial w h =
     \<lparr> gameState = \<lparr> score = 0, preyType = Laser, speed = 3, theme = Minimal, isMuted = False \<rparr>,
       isPlaying = True,
       dimensions = \<lparr> width = w, height = h \<rparr>,
       prey = \<lparr> prey_id = ''prey-1'', prey_x = w / 2, prey_y = h / 2,
                prey_rotation = 0, prey_scale = 1 \<rparr>,
       showSettings = False,
       velocityRef = \<lparr> dx = 2, dy = 2 \<rparr> \<rparr>"

section \<open>The motion tick (animate)\<close>

text \<open>
  \<open>Math.atan2(y, x)\<close>: the angle in \<open>(-pi, pi]\<close> of the point \<open>(x, y)\<close>, and \<open>0\<close> at the
  origin.
\<close>

definition atan2 :: "real \<Rightarrow> real \<Rightarrow> real" where
  "atan2 b a =
     (if 0 < a then arctan (b / a)
      else if a < 0 then (if 0 \<le> b then arctan (b / a) + pi else arctan (b / a) - pi)
      else if 0 < b then pi / 2
      else if b < 0 then - (pi / 2)
      else 0)"

text \<open>\<open>Math.atan2(v.dy, v.dx) * (180 / Math.PI)\<close>, the heading in degrees of a velocity.\<close>

definition heading :: "Velocity \<Rightarrow> real" where
  "heading v = atan2 (dy v) (dx v) * (180 / pi)"

text \<open>
  The two wall checks work on the pair of \<open>velocityRef.current\<close> and the local \<open>rotation\<close>.
  Each one tests the already advanced coordinate, flips its own component in the ref and
  recomputes \<open>rotation\<close> from the ref.
\<close>

definition bounce_x :: "Dimensions \<Rightarrow> real \<Rightarrow> Velocity \<times> real \<Rightarrow> Velocity \<times> real" where
  "bounce_x d a vr =
     (if a < 50 \<or> a > width d - 50
      then (let v = (fst vr)\<lparr>dx := dx (fst vr) * (- 1)\<rparr> in (v, heading v))
      else vr)"

definition bounce_y :: "Dimensions \<Rightarrow> real \<Rightarrow> Velocity \<times> real \<Rightarrow> Velocity \<times> real" where
  "bounce_y d b vr =
     (if b < 50 \<or> b > height d - 50
      then (let v = (fst vr)\<lparr>dy := dy (fst vr) * (- 1)\<rparr> in (v, heading v))
      else vr)"

text \<open>
  The random change of direction. \<open>r1\<close> is the draw compared with \<open>0.02\<close>, \<open>r2\<close> the draw
  of the angle. \<open>ldx\<close> and \<open>ldy\<close> are the locals \<open>dx\<close> and \<open>dy\<close> of the tick, read from the
  ref before the wall checks; the rotated vector replaces the ref. The arithmetic is that
  of the reals, so the result is the code's where the code does not round (the change does
  not fire, or the angle is \<open>0\<close>) and the code's up to rounding otherwise.
\<close>

definition jitter :: "real \<Rightarrow> real \<Rightarrow> real \<Rightarrow> real \<Rightarrow> Velocity \<times> real \<Rightarrow> Velocity \<times> real" where
  "jitter r1 r2 ldx ldy vr =
     (if r1 < 0.02
      then (let angle = (r2 - 0.5) * 0.5;
                c = cos angle;
                s = sin angle;
                newDx = ldx * c - ldy * s;
                newDy = ldx * s + ldy * c;
                v = \<lparr> dx = newDx, dy = newDy \<rparr>
            in (v, heading v))
      else vr)"

text \<open>The coordinates after the position update of a tick.\<close>

definition advanced_x :: "App \<Rightarrow> real" where
  "advanced_x st = prey_x (prey st) + dx (velocityRef st) * speed (gameState st)"

definition advanced_y :: "App \<Rightarrow> real" where
  "advanced_y st = prey_y (prey st) + dy (velocityRef st) * speed (gameState st)"

text \<open>The ref and the local \<open>rotation\<close> after the two wall checks of a tick.\<close>

definition after_bounce :: "App \<Rightarrow> Velocity \<times> real" where
  "after_bounce st =
     bounce_y (dimensions st) (advanced_y st)
       (bounce_x (dimensions st) (advanced_x st)
          (velocityRef st, prey_rotation (prey st)))"

text \<open>One call of \<open>animate\<close>, with the state update it queues applied.\<close>

definition animate :: "real \<Rightarrow> real \<Rightarrow> App \<Rightarrow> App" where
  "animate r1 r2 st =
     (if \<not> isPlaying st then st
      else
        (let vr = jitter r1 r2 (dx (velocityRef st)) (dy (velocityRef st)) (after_bounce st)
         in st\<lparr> prey := (prey st)\<lparr> prey_x := advanced_x st, prey_y := advanced_y st,
                                    prey_rotation := snd vr \<rparr>,
                 velocityRef := fst vr \<rparr>))"

section \<open>The catch handler and the controls\<close>

text \<open>
  \<open>handlePreyCatch\<close>: the score goes up by one, the scale is set to \<open>1.5\<close> and the prey is
  moved to a random place; \<open>r1\<close> and \<open>r2\<close> are the draws for \<open>x\<close> and \<open>y\<close>. The timer that
  sets the scale back is \<open>scaleRevert\<close>. The sound touches no state.
\<close>

definition handlePreyCatch :: "real \<Rightarrow> real \<Rightarrow> App \<Rightarrow> App" where
  "handlePreyCatch r1 r2 st =
     st\<lparr> gameState := (gameState st)\<lparr> score := score (gameState st) + 1 \<rparr>,
         prey := (prey st)\<lparr> prey_scale := 1.5,
                            prey_x := r1 * (width (dimensions st) - 100) + 50,
                            prey_y := r2 * (height (dimensions st) - 100) + 50 \<rparr> \<rparr>"

definition scaleRevert :: "App \<Rightarrow> App" where
  "scaleRevert st = st\<lparr> prey := (prey st)\<lparr> prey_scale := 1 \<rparr> \<rparr>"

text \<open>The \<open>onClick\<close> and \<open>onChange\<close> handlers of the controls and the resize listener.\<close>

definition resetScore :: "App \<Rightarrow> App" where
  "resetScore st = st\<lparr> gameState := (gameState st)\<lparr> score := 0 \<rparr> \<rparr>"

text \<open>
  Modelled from the spec: the value of the slider,
  \<open><input type="range" min="1" max="10" step="0.5">\<close>, which the browser and not the
  repository computes and which the spec gives as clamped to \<open>[1, 10]\<close> in steps of \<open>0.5\<close>.
  Whatever value is put on the element, the value it holds and reports as
  \<open>e.target.value\<close> is on one of the steps \<open>1, 1.5, ..., 10\<close>: a value below \<open>min\<close> becomes
  \<open>min\<close>, a value above \<open>max\<close> becomes \<open>max\<close>, and a value between two steps goes to the
  nearer one (to the upper one when it is halfway).
\<close>

definition rangeValue :: "real \<Rightarrow> real" where
  "rangeValue a =
     (let c = (if a < 1 then 1 else if 10 < a then 10 else a)
      in 1 + real_of_int \<lfloor>(c - 1) / 0.5 + 1 / 2\<rfloor> * 0.5)"

text \<open>The nineteen steps of the slider.\<close>

definition slider_values :: "real list" where
  "slider_values = map (\<lambda>k. 1 + real k * 0.5) [0..<19]"

text \<open>
  The speed setter: the slider with its \<open>onChange\<close> handler. \<open>a\<close> is the value put on the
  slider; the handler stores \<open>parseFloat\<close> of the value the element reports.
\<close>

definition setSpeed :: "real \<Rightarrow> App \<Rightarrow> App" where
  "setSpeed a st = st\<lparr> gameState := (gameState st)\<lparr> speed := rangeValue a \<rparr> \<rparr>"

definition setPreyType :: "PreyType \<Rightarrow> App \<Rightarrow> App" where
  "setPreyType t st = st\<lparr> gameState := (gameState st)\<lparr> preyType := t \<rparr> \<rparr>"

definition setTheme :: "Theme \<Rightarrow> App \<Rightarrow> App" where
  "setTheme t st = st\<lparr> gameState := (gameState st)\<lparr> theme := t \<rparr> \<rparr>"

definition toggleMute :: "App \<Rightarrow> App" where
  "toggleMute st = st\<lparr> gameState := (gameState st)\<lparr> isMuted := \<not> isMuted (gameState st) \<rparr> \<rparr>"

definition togglePlaying :: "App \<Rightarrow> App" where
  "togglePlaying st = st\<lparr> isPlaying := \<not> isPlaying st \<rparr>"

definition toggleSettings :: "App \<Rightarrow> App" where
  "toggleSettings st = st\<lparr> showSettings := \<not> showSettings st \<rparr>"

definition handleResize :: "real \<Rightarrow> real \<Rightarrow> App \<Rightarrow> App" where
  "handleResize w h st = st\<lparr> dimensions := \<lparr> width = w, height = h \<rparr> \<rparr>"

section \<open>Series of catches and the rectangle of the spec\<close>

text \<open>A series of catches, one pair of draws for each.\<close>

definition catches :: "(real \<times> real) list \<Rightarrow> App \<Rightarrow> App" where
  "catches rs st = foldl (\<lambda>s r. handlePreyCatch (fst r) (snd r) s) st rs"

text \<open>The rectangle of the spec: at least the margin of 50 away from every edge.\<close>

definition in_bounds :: "Dimensions \<Rightarrow> real \<Rightarrow> real \<Rightarrow> bool" where
  "in_bounds d a b = (50 \<le> a \<and> a \<le> width d - 50 \<and> 50 \<le> b \<and> b \<le> height d - 50)"

section \<open>Example states\<close>

text \<open>
  An 800 by 600 window with the prey two pixels from the right edge of the screen, at
  \<open>(798, 300)\<close>, with the initial velocity \<open>(2, 2)\<close> and speed \<open>3\<close>.
\<close>

definition bounce_example :: App where
  "bounce_example =
     (initial 800 600)\<lparr> prey := (prey (initial 800 600))\<lparr> prey_x := 798, prey_y := 300 \<rparr> \<rparr>"

text \<open>The same window with the prey near the bottom right corner, at \<open>(748, 548)\<close>.\<close>

definition corner_example :: App where
  "corner_example =
     (initial 800 600)\<lparr> prey := (prey (initial 800 600))\<lparr> prey_x := 748, prey_y := 548 \<rparr> \<rparr>"

section \<open>The steps of a tick\<close>

lemma fst_bounce_x:
  "fst (bounce_x d a vr) =
     (if a < 50 \<or> a > width d - 50 then (fst vr)\<lparr>dx := - dx (fst vr)\<rparr> else fst vr)"
  by (simp add: bounce_x_def Let_def)

lemma fst_bounce_y:
  "fst (bounce_y d b vr) =
     (if b < 50 \<or> b > height d - 50 then (fst vr)\<lparr>dy := - dy (fst vr)\<rparr> else fst vr)"
  by (simp add: bounce_y_def Let_def)

lemma snd_bounce_x:
  "snd (bounce_x d a vr) =
     (if a < 50 \<or> a > width d - 50 then heading (fst (bounce_x d a vr)) else snd vr)"
  by (simp add: bounce_x_def Let_def)

lemma snd_bounce_y:
  "snd (bounce_y d b vr) =
     (if b < 50 \<or> b > height d - 50 then heading (fst (bounce_y d b vr)) else snd vr)"
  by (simp add: bounce_y_def Let_def)

lemma fst_jitter:
  "fst (jitter r1 r2 a b vr) =
     (if r1 < 0.02
      then \<lparr> dx = a * cos ((r2 - 0.5) * 0.5) - b * sin ((r2 - 0.5) * 0.5),
             dy = a * sin ((r2 - 0.5) * 0.5) + b * cos ((r2 - 0.5) * 0.5) \<rparr>
      else fst vr)"
  by (simp add: jitter_def Let_def)

lemma snd_jitter:
  "snd (jitter r1 r2 a b vr) =
     (if r1 < 0.02 then heading (fst (jitter r1 r2 a b vr)) else snd vr)"
  by (simp add: jitter_def Let_def)

lemma velocityRef_animate:
  "velocityRef (animate r1 r2 st) =
     (if isPlaying st
      then fst (jitter r1 r2 (dx (velocityRef st)) (dy (velocityRef st)) (after_bounce st))
      else velocityRef st)"
  by (simp add: animate_def Let_def)

lemma initial_simps:
  "gameState (initial w h) = \<lparr> score = 0, preyType = Laser, speed = 3, theme = Minimal, isMuted = False \<rparr>"
  "isPlaying (initial w h)"
  "dimensions (initial w h) = \<lparr> width = w, height = h \<rparr>"
  "prey (initial w h) = \<lparr> prey_id = ''prey-1'', prey_x = w / 2, prey_y = h / 2,
                prey_rotation = 0, prey_scale = 1 \<rparr>"
  "velocityRef (initial w h) = \<lparr> dx = 2, dy = 2 \<rparr>"
  by (simp_all add: initial_def)

lemma prey_animate:
  "isPlaying st \<Longrightarrow>
   prey (animate r1 r2 st) =
     (prey st)\<lparr> prey_x := advanced_x st, prey_y := advanced_y st,
                prey_rotation :=
                  snd (jitter r1 r2 (dx (velocityRef st)) (dy (velocityRef st)) (after_bounce st)) \<rparr>"
  by (simp add: animate_def Let_def)

lemma heading_after_bounce:
  assumes "advanced_x st < 50 \<or> advanced_x st > width (dimensions st) - 50 \<or>
           advanced_y st < 50 \<or> advanced_y st > height (dimensions st) - 50"
  shows "snd (after_bounce st) = heading (fst (after_bounce st))"
proof (cases "advanced_y st < 50 \<or> advanced_y st > height (dimensions st) - 50")
  case True
  then show ?thesis
    unfolding after_bounce_def by (simp add: snd_bounce_y)
next
  case False
  with assms have "advanced_x st < 50 \<or> advanced_x st > width (dimensions st) - 50"
    by blast
  with False show ?thesis
    unfolding after_bounce_def by (simp add: bounce_y_def snd_bounce_x)
qed

lemma heading_animate:
  assumes "isPlaying st"
    and "advanced_x st < 50 \<or> advanced_x st > width (dimensions st) - 50 \<or>
         advanced_y st < 50 \<or> advanced_y st > height (dimensions st) - 50"
  shows "prey_rotation (prey (animate r1 r2 st)) = heading (velocityRef (animate r1 r2 st))"
proof (cases "r1 < 0.02")
  case True
  with assms(1) show ?thesis
    by (simp add: prey_animate velocityRef_animate snd_jitter)
next
  case False
  then have "jitter r1 r2 (dx (velocityRef st)) (dy (velocityRef st)) (after_bounce st) =
               after_bounce st"
    by (simp add: jitter_def)
  with assms(1) heading_after_bounce [OF assms(2)] show ?thesis
    by (simp add: prey_animate velocityRef_animate)
qed

lemma heading_up_left: "heading \<lparr> dx = - 2, dy = 2 \<rparr> = 135"
proof -
  have "arctan (2 / (- 2 :: real)) = - (pi / 4)"
    by (simp add: arctan_minus arctan_one)
  then have a: "atan2 2 (- 2) = 3 * pi / 4"
    by (simp add: atan2_def)
  show ?thesis
    unfolding heading_def by (simp add: a)
qed

lemma heading_up_right: "heading \<lparr> dx = 2, dy = 2 \<rparr> = 45"
proof -
  have a: "atan2 2 2 = pi / 4"
    by (simp add: atan2_def arctan_one)
  show ?thesis
    unfolding heading_def by (simp add: a)
qed

lemma after_bounce_right_edge:
  assumes "prey_x (prey st) = 798" and "prey_y (prey st) = 300"
    and "velocityRef st = \<lparr> dx = 2, dy = 2 \<rparr>" and "speed (gameState st) = 3"
    and "width (dimensions st) = 800" and "356 \<le> height (dimensions st)"
  shows "after_bounce st = (\<lparr> dx = - 2, dy = 2 \<rparr>, 135)"
  using assms
  by (simp add: after_bounce_def advanced_x_def advanced_y_def bounce_x_def bounce_y_def
        heading_up_left)

lemma jitter_rotates_tick_start_velocity:
  assumes "isPlaying st" and "r1 < 0.02"
  shows "velocityRef (animate r1 r2 st) =
           \<lparr> dx = dx (velocityRef st) * cos ((r2 - 0.5) * 0.5)
                  - dy (velocityRef st) * sin ((r2 - 0.5) * 0.5),
             dy = dx (velocityRef st) * sin ((r2 - 0.5) * 0.5)
                  + dy (velocityRef st) * cos ((r2 - 0.5) * 0.5) \<rparr>"
  using assms by (simp add: velocityRef_animate fst_jitter)

lemma score_handlePreyCatch:
  "score (gameState (handlePreyCatch r1 r2 st)) = score (gameState st) + 1"
  by (simp add: handlePreyCatch_def)

lemma score_foldl_catch:
  "score (gameState (foldl (\<lambda>s r. handlePreyCatch (fst r) (snd r) s) st rs)) =
     score (gameState st) + int (length rs)"
  by (induction rs arbitrary: st) (simp_all add: score_handlePreyCatch)

lemma scaled_draw_bounds:
  fixes r e :: real
  assumes "0 \<le> r" "r < 1" "100 \<le> e"
  shows "50 \<le> r * (e - 100) + 50 \<and> r * (e - 100) + 50 \<le> e - 50"
proof
  from assms show "50 \<le> r * (e - 100) + 50" by simp
  from assms have "r * (e - 100) \<le> 1 * (e - 100)"
    by (intro mult_right_mono) simp_all
  then show "r * (e - 100) + 50 \<le> e - 50" by simp
qed

lemma slider_values_iff: "a \<in> set slider_values \<longleftrightarrow> (\<exists>k<19. a = 1 + real k / 2)"
  by (auto simp add: slider_values_def)

lemma rangeValue_step:
  assumes "k < 19"
  shows "rangeValue (1 + real k / 2) = 1 + real k / 2"
proof -
  have "\<lfloor>real k + 1 / 2\<rfloor> = int k"
    by linarith
  moreover have "(1 + real k / 2 - 1) / 0.5 + 1 / 2 = real k + 1 / 2"
    by simp
  moreover from assms have "\<not> 1 + real k / 2 < 1" and "\<not> 10 < 1 + real k / 2"
    by simp_all
  ultimately show ?thesis
    by (simp add: rangeValue_def)
qed

lemma rangeValue_below: "a < 1 \<Longrightarrow> rangeValue a = 1"
  by (simp add: rangeValue_def)

lemma rangeValue_above: "10 < a \<Longrightarrow> rangeValue a = 10"
  by (simp add: rangeValue_def)

lemma rangeValue_in_slider_values: "rangeValue a \<in> set slider_values"
proof -
  define c where "c = (if a < 1 then 1 else if 10 < a then 10 else a)"
  define n where "n = \<lfloor>(c - 1) / 0.5 + 1 / 2\<rfloor>"
  have c: "1 \<le> c" "c \<le> 10"
    by (simp_all add: c_def)
  have "0 \<le> n"
    unfolding n_def using c by (simp add: le_floor_iff)
  moreover have "n < 19"
    unfolding n_def using c by (simp add: floor_less_iff)
  ultimately have "nat n < 19" and "real (nat n) = real_of_int n"
    by simp_all
  moreover have "rangeValue a = 1 + real_of_int n * 0.5"
    by (simp add: rangeValue_def c_def n_def Let_def)
  ultimately show ?thesis
    unfolding slider_values_iff by (intro exI [of _ "nat n"]) simp
qed

lemma slider_values_bounds: "a \<in> set slider_values \<Longrightarrow> 1 \<le> a \<and> a \<le> 10"
  by (auto simp add: slider_values_iff)

section \<open>Position after a tick\<close>

text \<open>
  Claim C1, as amended. A tick made while playing leaves the prey at its old position
  plus velocity times speed; nothing brings the position back. So the position at the
  end of the tick lies in \<open>[50, width - 50] \<times> [50, height - 50]\<close> exactly when that
  sum crosses no boundary.
\<close>

theorem animate_position:
  assumes "isPlaying st"
  shows "prey_x (prey (animate r1 r2 st)) =
           prey_x (prey st) + dx (velocityRef st) * speed (gameState st) \<and>
         prey_y (prey (animate r1 r2 st)) =
           prey_y (prey st) + dy (velocityRef st) * speed (gameState st) \<and>
         in_bounds (dimensions st) (prey_x (prey (animate r1 r2 st)))
             (prey_y (prey (animate r1 r2 st))) =
           (\<not> (advanced_x st < 50 \<or> advanced_x st > width (dimensions st) - 50) \<and>
            \<not> (advanced_y st < 50 \<or> advanced_y st > height (dimensions st) - 50))"
  using assms by (auto simp add: prey_animate advanced_x_def advanced_y_def in_bounds_def)

text \<open>
  In the initial state of an 800 by 600 window the prey moves from \<open>(400, 300)\<close> to
  \<open>(406, 306)\<close>, inside the rectangle.
\<close>

theorem animate_position_witness:
  "isPlaying (initial 800 600) \<and>
   prey_x (prey (animate (1/2) (1/2) (initial 800 600))) = 406 \<and>
   prey_y (prey (animate (1/2) (1/2) (initial 800 600))) = 306 \<and>
   in_bounds (dimensions (initial 800 600))
     (prey_x (prey (animate (1/2) (1/2) (initial 800 600))))
     (prey_y (prey (animate (1/2) (1/2) (initial 800 600))))"
  using animate_position [of "initial 800 600" "1/2" "1/2"]
  by (auto simp add: initial_simps advanced_x_def advanced_y_def)

text \<open>
  Claim C1 as written fails: from \<open>(798, 300)\<close> the tick puts the prey at \<open>x = 804\<close>,
  beyond \<open>width - 50 = 750\<close>.
\<close>

theorem tick_leaves_rectangle:
  "isPlaying bounce_example \<and>
   prey_x (prey (animate (1/2) (1/2) bounce_example)) = 804 \<and>
   \<not> in_bounds (dimensions bounce_example)
        (prey_x (prey (animate (1/2) (1/2) bounce_example)))
        (prey_y (prey (animate (1/2) (1/2) bounce_example)))"
  by (simp add: bounce_example_def initial_simps prey_animate advanced_x_def advanced_y_def
        in_bounds_def)

section \<open>The speed setter\<close>

text \<open>
  Claim C2. Whatever value is submitted through the speed setter, the speed stored is on
  one of the steps \<open>1, 1.5, ..., 10\<close>, so within \<open>[1, 10]\<close>: a value below \<open>1\<close> is stored as
  \<open>1\<close> and a value above \<open>10\<close> as \<open>10\<close>. A value that is on a step is stored exactly. No
  other field of the session changes.
\<close>

theorem setSpeed_range:
  "speed (gameState (setSpeed a st)) \<in> set slider_values \<and>
   1 \<le> speed (gameState (setSpeed a st)) \<and> speed (gameState (setSpeed a st)) \<le> 10 \<and>
   (a < 1 \<longrightarrow> speed (gameState (setSpeed a st)) = 1) \<and>
   (10 < a \<longrightarrow> speed (gameState (setSpeed a st)) = 10) \<and>
   (a \<in> set slider_values \<longrightarrow> speed (gameState (setSpeed a st)) = a) \<and>
   score (gameState (setSpeed a st)) = score (gameState st) \<and>
   preyType (gameState (setSpeed a st)) = preyType (gameState st) \<and>
   theme (gameState (setSpeed a st)) = theme (gameState st) \<and>
   isMuted (gameState (setSpeed a st)) = isMuted (gameState st) \<and>
   isPlaying (setSpeed a st) = isPlaying st"
proof -
  have s: "speed (gameState (setSpeed a st)) = rangeValue a"
    by (simp add: setSpeed_def)
  have "a \<in> set slider_values \<longrightarrow> rangeValue a = a"
    by (auto simp add: slider_values_iff rangeValue_step)
  with slider_values_bounds [OF rangeValue_in_slider_values [of a]]
    rangeValue_in_slider_values [of a] rangeValue_below [of a] rangeValue_above [of a]
  show ?thesis
    unfolding s by (simp add: setSpeed_def)
qed

text \<open>
  On the initial state: \<open>3.5\<close> is on a step and is stored as it is, \<open>0\<close> is stored as \<open>1\<close>
  and \<open>11\<close> as \<open>10\<close>.
\<close>

theorem setSpeed_range_witness:
  "(7/2 :: real) \<in> set slider_values \<and>
   speed (gameState (setSpeed (7/2) (initial 800 600))) = 7/2 \<and>
   (0 :: real) < 1 \<and> speed (gameState (setSpeed 0 (initial 800 600))) = 1 \<and>
   (10 :: real) < 11 \<and> speed (gameState (setSpeed 11 (initial 800 600))) = 10"
proof -
  have m: "(7/2 :: real) \<in> set slider_values"
    unfolding slider_values_iff by (intro exI [of _ 5]) simp
  from m setSpeed_range [of "7/2" "initial 800 600"] setSpeed_range [of 0 "initial 800 600"]
    setSpeed_range [of 11 "initial 800 600"]
  show ?thesis by simp
qed

section \<open>Wall check and change of direction in one tick\<close>

text \<open>
  Claim C3. In a tick where a wall check and the random change of direction both fire,
  the final velocity should be the rotation of the bounced velocity. The code rotates the
  velocity read at the start of the tick instead. From \<open>(798, 300)\<close> with the draws
  \<open>0.01\<close> and \<open>0.5\<close> (an angle of \<open>0\<close>) the wall check gives \<open>(-2, 2)\<close>, and the tick
  ends with velocity \<open>(2, 2)\<close> and heading \<open>45\<close>: the flip is gone.
\<close>

theorem jitter_discards_bounce:
  "isPlaying bounce_example \<and>
   advanced_x bounce_example > width (dimensions bounce_example) - 50 \<and>
   fst (after_bounce bounce_example) = \<lparr> dx = - 2, dy = 2 \<rparr> \<and>
   velocityRef (animate (1/100) (1/2) bounce_example) = \<lparr> dx = 2, dy = 2 \<rparr> \<and>
   prey_rotation (prey (animate (1/100) (1/2) bounce_example)) = 45"
proof -
  have ab: "after_bounce bounce_example = (\<lparr> dx = - 2, dy = 2 \<rparr>, 135)"
    by (intro after_bounce_right_edge) (simp_all add: bounce_example_def initial_simps)
  have v: "velocityRef (animate (1/100) (1/2) bounce_example) = \<lparr> dx = 2, dy = 2 \<rparr>"
    by (simp add: velocityRef_animate fst_jitter bounce_example_def initial_simps)
  have "prey_rotation (prey (animate (1/100) (1/2) bounce_example)) =
          heading (velocityRef (animate (1/100) (1/2) bounce_example))"
    by (simp add: prey_animate velocityRef_animate snd_jitter bounce_example_def initial_simps)
  with v have r: "prey_rotation (prey (animate (1/100) (1/2) bounce_example)) = 45"
    by (simp add: heading_up_right)
  from ab v r show ?thesis
    by (simp add: bounce_example_def initial_simps advanced_x_def)
qed

section \<open>Ticks while paused\<close>

text \<open>
  Claim C4. A tick made while paused changes nothing: position, velocity and heading,
  as the whole state, stay as they are.
\<close>

theorem animate_paused: "\<not> isPlaying st \<Longrightarrow> animate r1 r2 st = st"
  by (simp add: animate_def)

text \<open>
  The initial state after the pause button is pressed is paused, and a tick leaves it
  alone.
\<close>

theorem animate_paused_witness:
  "\<not> isPlaying (togglePlaying (initial 800 600)) \<and>
   animate (1/100) (1/2) (togglePlaying (initial 800 600)) = togglePlaying (initial 800 600)"
  using animate_paused [of "togglePlaying (initial 800 600)" "1/100" "1/2"]
  by (simp add: togglePlaying_def initial_simps)

section \<open>Heading after a bounce\<close>

text \<open>
  Claim C5. When a wall check fires, the heading is \<open>atan2 (dy, dx)\<close> of the velocity
  in degrees: this holds for the local \<open>rotation\<close> and the ref right after the wall
  checks, and for the heading and velocity the tick leaves behind. For a playing state
  with position \<open>(798, 300)\<close>, velocity \<open>(2, 2)\<close>, speed \<open>3\<close>, width \<open>800\<close> and a height
  that keeps \<open>y = 306\<close> inside, a tick without the random change of direction flips the
  x-velocity to \<open>-2\<close> and sets the heading to \<open>135\<close>.
\<close>

theorem bounce_heading:
  "(isPlaying st \<and>
    (advanced_x st < 50 \<or> advanced_x st > width (dimensions st) - 50 \<or>
     advanced_y st < 50 \<or> advanced_y st > height (dimensions st) - 50) \<longrightarrow>
      snd (after_bounce st) =
        atan2 (dy (fst (after_bounce st))) (dx (fst (after_bounce st))) * (180 / pi) \<and>
      prey_rotation (prey (animate r1 r2 st)) =
        atan2 (dy (velocityRef (animate r1 r2 st))) (dx (velocityRef (animate r1 r2 st)))
          * (180 / pi)) \<and>
   (isPlaying st \<and> prey_x (prey st) = 798 \<and> prey_y (prey st) = 300 \<and>
    velocityRef st = \<lparr> dx = 2, dy = 2 \<rparr> \<and> speed (gameState st) = 3 \<and>
    width (dimensions st) = 800 \<and> 356 \<le> height (dimensions st) \<and> \<not> r1 < 0.02 \<longrightarrow>
      velocityRef (animate r1 r2 st) = \<lparr> dx = - 2, dy = 2 \<rparr> \<and>
      prey_rotation (prey (animate r1 r2 st)) = 135)"
proof (intro conjI impI)
  assume h: "isPlaying st \<and>
    (advanced_x st < 50 \<or> advanced_x st > width (dimensions st) - 50 \<or>
     advanced_y st < 50 \<or> advanced_y st > height (dimensions st) - 50)"
  from h show "snd (after_bounce st) =
        atan2 (dy (fst (after_bounce st))) (dx (fst (after_bounce st))) * (180 / pi)"
    using heading_after_bounce [of st] by (simp add: heading_def)
  from h show "prey_rotation (prey (animate r1 r2 st)) =
        atan2 (dy (velocityRef (animate r1 r2 st))) (dx (velocityRef (animate r1 r2 st)))
          * (180 / pi)"
    using heading_animate [of st r1 r2] by (simp add: heading_def)
next
  assume e: "isPlaying st \<and> prey_x (prey st) = 798 \<and> prey_y (prey st) = 300 \<and>
    velocityRef st = \<lparr> dx = 2, dy = 2 \<rparr> \<and> speed (gameState st) = 3 \<and>
    width (dimensions st) = 800 \<and> 356 \<le> height (dimensions st) \<and> \<not> r1 < 0.02"
  then have ab: "after_bounce st = (\<lparr> dx = - 2, dy = 2 \<rparr>, 135)"
    by (intro after_bounce_right_edge) simp_all
  from e ab show "velocityRef (animate r1 r2 st) = \<lparr> dx = - 2, dy = 2 \<rparr>"
    by (simp add: velocityRef_animate jitter_def)
  from e ab show "prey_rotation (prey (animate r1 r2 st)) = 135"
    by (simp add: prey_animate jitter_def)
qed

text \<open>
  The state at \<open>(798, 300)\<close> in an 800 by 600 window meets both hypotheses.
\<close>

theorem bounce_heading_witness:
  "isPlaying bounce_example \<and>
   advanced_x bounce_example > width (dimensions bounce_example) - 50 \<and>
   velocityRef (animate (1/2) (1/2) bounce_example) = \<lparr> dx = - 2, dy = 2 \<rparr> \<and>
   prey_rotation (prey (animate (1/2) (1/2) bounce_example)) = 135 \<and>
   prey_rotation (prey (animate (1/2) (1/2) bounce_example)) =
     atan2 (dy (velocityRef (animate (1/2) (1/2) bounce_example)))
       (dx (velocityRef (animate (1/2) (1/2) bounce_example))) * (180 / pi)"
proof -
  have p: "isPlaying bounce_example"
    by (simp add: bounce_example_def initial_simps)
  have c: "advanced_x bounce_example > width (dimensions bounce_example) - 50"
    by (simp add: bounce_example_def initial_simps advanced_x_def)
  have e: "prey_x (prey bounce_example) = 798 \<and> prey_y (prey bounce_example) = 300 \<and>
    velocityRef bounce_example = \<lparr> dx = 2, dy = 2 \<rparr> \<and> speed (gameState bounce_example) = 3 \<and>
    width (dimensions bounce_example) = 800 \<and> 356 \<le> height (dimensions bounce_example) \<and>
    \<not> (1/2 :: real) < 0.02"
    by (simp add: bounce_example_def initial_simps)
  from p c e bounce_heading [of bounce_example "1/2" "1/2"] show ?thesis
    by blast
qed

section \<open>Corner bounce\<close>

text \<open>
  Claim C6. The two wall checks are independent: after them the x-component is negated
  exactly when the x-coordinate crossed a margin, and the y-component exactly when the
  y-coordinate did. When both cross and the random change of direction does not fire,
  the tick ends with both components negated.
\<close>

theorem corner_bounce:
  "dx (fst (after_bounce st)) =
     (if advanced_x st < 50 \<or> advanced_x st > width (dimensions st) - 50
      then - dx (velocityRef st) else dx (velocityRef st)) \<and>
   dy (fst (after_bounce st)) =
     (if advanced_y st < 50 \<or> advanced_y st > height (dimensions st) - 50
      then - dy (velocityRef st) else dy (velocityRef st)) \<and>
   (isPlaying st \<and> \<not> r1 < 0.02 \<and>
    (advanced_x st < 50 \<or> advanced_x st > width (dimensions st) - 50) \<and>
    (advanced_y st < 50 \<or> advanced_y st > height (dimensions st) - 50) \<longrightarrow>
      velocityRef (animate r1 r2 st) =
        \<lparr> dx = - dx (velocityRef st), dy = - dy (velocityRef st) \<rparr>)"
  by (simp add: after_bounce_def fst_bounce_x fst_bounce_y velocityRef_animate jitter_def)

text \<open>
  From \<open>(748, 548)\<close> in an 800 by 600 window both coordinates cross, and \<open>(2, 2)\<close>
  becomes \<open>(-2, -2)\<close>.
\<close>

theorem corner_bounce_witness:
  "isPlaying corner_example \<and>
   advanced_x corner_example > width (dimensions corner_example) - 50 \<and>
   advanced_y corner_example > height (dimensions corner_example) - 50 \<and>
   velocityRef corner_example = \<lparr> dx = 2, dy = 2 \<rparr> \<and>
   velocityRef (animate (1/2) (1/2) corner_example) = \<lparr> dx = - 2, dy = - 2 \<rparr>"
  using corner_bounce [of corner_example "1/2" "1/2"]
  by (simp add: corner_example_def initial_simps advanced_x_def advanced_y_def)

section \<open>Score\<close>

text \<open>
  Claim C7. A catch adds exactly one to the score, so after \<open>N\<close> catches, whatever the
  random draws, the score is the initial score plus \<open>N\<close>.
\<close>

theorem catches_score:
  "score (gameState (handlePreyCatch r1 r2 st)) = score (gameState st) + 1 \<and>
   score (gameState (catches rs st)) = score (gameState st) + int (length rs)"
  by (simp add: catches_def score_handlePreyCatch score_foldl_catch)

text \<open>
  Claim C9. Resetting the score sets it to \<open>0\<close> and changes no other field: prey type,
  speed, theme, mute flag and play flag stay, as does the rest of the state.
\<close>

theorem resetScore_frame:
  "score (gameState (resetScore st)) = 0 \<and>
   preyType (gameState (resetScore st)) = preyType (gameState st) \<and>
   speed (gameState (resetScore st)) = speed (gameState st) \<and>
   theme (gameState (resetScore st)) = theme (gameState st) \<and>
   isMuted (gameState (resetScore st)) = isMuted (gameState st) \<and>
   isPlaying (resetScore st) = isPlaying st \<and>
   dimensions (resetScore st) = dimensions st \<and>
   prey (resetScore st) = prey st \<and>
   showSettings (resetScore st) = showSettings st \<and>
   velocityRef (resetScore st) = velocityRef st"
  by (simp add: resetScore_def)

section \<open>Teleport on catch\<close>

text \<open>
  Claim C8, as amended. In a window at least 100 wide and 100 high, for all draws in
  \<open>[0, 1)\<close> the catch puts the prey inside \<open>[50, width - 50] \<times> [50, height - 50]\<close>; the
  catch leaves velocity and heading alone.
\<close>

theorem teleport_in_bounds:
  assumes "100 \<le> width (dimensions st)" and "100 \<le> height (dimensions st)"
    and "0 \<le> r1" and "r1 < 1" and "0 \<le> r2" and "r2 < 1"
  shows "in_bounds (dimensions st) (prey_x (prey (handlePreyCatch r1 r2 st)))
             (prey_y (prey (handlePreyCatch r1 r2 st))) \<and>
         velocityRef (handlePreyCatch r1 r2 st) = velocityRef st \<and>
         prey_rotation (prey (handlePreyCatch r1 r2 st)) = prey_rotation (prey st)"
  using scaled_draw_bounds [OF assms(3,4,1)] scaled_draw_bounds [OF assms(5,6,2)]
  by (simp add: handlePreyCatch_def in_bounds_def)

text \<open>
  An 800 by 600 window with the draws \<open>0.5\<close> and \<open>0.25\<close>.
\<close>

theorem teleport_in_bounds_witness:
  "100 \<le> width (dimensions (initial 800 600)) \<and> 100 \<le> height (dimensions (initial 800 600)) \<and>
   in_bounds (dimensions (initial 800 600))
     (prey_x (prey (handlePreyCatch (1/2) (1/4) (initial 800 600))))
     (prey_y (prey (handlePreyCatch (1/2) (1/4) (initial 800 600)))) \<and>
   velocityRef (handlePreyCatch (1/2) (1/4) (initial 800 600)) = velocityRef (initial 800 600)"
  using teleport_in_bounds [of "initial 800 600" "1/2" "1/4"]
  by (simp add: initial_simps)

text \<open>
  Claim C8 as written fails in a window narrower than 100: at 80 by 80 the rectangle
  \<open>[50, 30] \<times> [50, 30]\<close> is empty, and the draws \<open>0.5\<close> put the prey at \<open>(40, 40)\<close>.
\<close>

theorem teleport_small_window:
  "(0::real) \<le> 1/2 \<and> (1/2::real) < 1 \<and>
   prey_x (prey (handlePreyCatch (1/2) (1/2) (initial 80 80))) = 40 \<and>
   \<not> in_bounds (dimensions (initial 80 80))
        (prey_x (prey (handlePreyCatch (1/2) (1/2) (initial 80 80))))
        (prey_y (prey (handlePreyCatch (1/2) (1/2) (initial 80 80))))"
  by (simp add: handlePreyCatch_def initial_simps in_bounds_def)

end
